theory Spec2Isabelle
  imports Complex_Main
begin

section \<open>JavaScript values\<close>

text \<open>
  The values a filter clause or a form parameter carries: admin-bro builds them from the
  query string or the submitted form, so they are strings, nested plain objects of such
  values, booleans, and \<open>undefined\<close>/\<open>null\<close> for what is absent. A plain object is an
  association list of its own properties; a key is looked up with \<open>map_of\<close>. A string is
  the list of the bytes of its UTF-8 encoding.
\<close>

datatype jsval =
    Undefined
  | Null
  | Bool bool
  | Str string
  | Obj "(string \<times> jsval) list"

text \<open>
  A thrown value: its \<open>name\<close>, its \<open>message\<close>, and (for the storage layer's validation
  error) the per-field entries \<open>errors\<close> as (path, message) pairs.
\<close>

datatype js_error = Exn (exn_name: string) (exn_message: string) (exn_errors: "(string \<times> string) list")

definition TypeError :: "string \<Rightarrow> js_error" where
  "TypeError msg = Exn ''TypeError'' msg []"

definition Error :: "string \<Rightarrow> js_error" where
  "Error msg = Exn ''Error'' msg []"

text \<open>Truthiness, as \<open>||\<close>, \<open>&&\<close> and \<open>if\<close> test it.\<close>

fun truthy :: "jsval \<Rightarrow> bool" where
  "truthy Undefined = False"
| "truthy Null = False"
| "truthy (Bool b) = b"
| "truthy (Str s) = (s \<noteq> [])"
| "truthy (Obj kvs) = True"

text \<open>
  Property read \<open>v.k\<close>: a TypeError on \<open>undefined\<close> and \<open>null\<close>, \<open>undefined\<close> for a key
  the value does not have.
\<close>

fun js_get :: "jsval \<Rightarrow> string \<Rightarrow> js_error + jsval" where
  "js_get Undefined k = Inl (TypeError (''Cannot read property '' @ k @ '' of undefined''))"
| "js_get Null k = Inl (TypeError (''Cannot read property '' @ k @ '' of null''))"
| "js_get (Obj kvs) k = (case map_of kvs k of None \<Rightarrow> Inr Undefined | Some v \<Rightarrow> Inr v)"
| "js_get v k = Inr Undefined"

text \<open>
  \<open>String(v)\<close>. For an object the \<open>toString\<close> it inherits from \<open>Object.prototype\<close>
  answers; an object whose own key \<open>toString\<close> shadows it is left out of the values
  considered here (the conversion of such an object throws).
\<close>

fun js_String :: "jsval \<Rightarrow> string" where
  "js_String Undefined = ''undefined''"
| "js_String Null = ''null''"
| "js_String (Bool b) = (if b then ''true'' else ''false'')"
| "js_String (Str s) = s"
| "js_String (Obj kvs) = ''[object Object]''"

subsection \<open>Numbers and \<open>Number(v)\<close>\<close>

text \<open>
  A number is NaN, an infinity, the negative zero or a finite double, held as the exact
  rational it denotes (\<open>Num 0\<close> is the positive zero).
\<close>

datatype jsnum = NaN | PosInfinity | NegInfinity | NegZero | Num rat

text \<open>
  The characters of \<open>StrWhiteSpaceChar\<close> (\<open>WhiteSpace\<close> and \<open>LineTerminator\<close>), each as
  the bytes of its UTF-8 encoding: TAB, LF, VT, FF, CR, SP, U+00A0, U+1680, U+2000 to
  U+200A, U+2028, U+2029, U+202F, U+205F, U+3000 and U+FEFF.
\<close>

definition white_space :: "string list" where
  "white_space =
     [[CHR 0x09], [CHR 0x0A], [CHR 0x0B], [CHR 0x0C], [CHR 0x0D], [CHR 0x20],
      [CHR 0xC2, CHR 0xA0],
      [CHR 0xE1, CHR 0x9A, CHR 0x80],
      [CHR 0xE2, CHR 0x80, CHR 0x80], [CHR 0xE2, CHR 0x80, CHR 0x81],
      [CHR 0xE2, CHR 0x80, CHR 0x82], [CHR 0xE2, CHR 0x80, CHR 0x83],
      [CHR 0xE2, CHR 0x80, CHR 0x84], [CHR 0xE2, CHR 0x80, CHR 0x85],
      [CHR 0xE2, CHR 0x80, CHR 0x86], [CHR 0xE2, CHR 0x80, CHR 0x87],
      [CHR 0xE2, CHR 0x80, CHR 0x88], [CHR 0xE2, CHR 0x80, CHR 0x89],
      [CHR 0xE2, CHR 0x80, CHR 0x8A],
      [CHR 0xE2, CHR 0x80, CHR 0xA8], [CHR 0xE2, CHR 0x80, CHR 0xA9],
      [CHR 0xE2, CHR 0x80, CHR 0xAF],
      [CHR 0xE2, CHR 0x81, CHR 0x9F],
      [CHR 0xE3, CHR 0x80, CHR 0x80],
      [CHR 0xEF, CHR 0xBB, CHR 0xBF]]"

text \<open>Dropping, from the front of \<open>s\<close>, every sequence of \<open>ws\<close> that stands there.\<close>

function strip_leading :: "string list \<Rightarrow> string \<Rightarrow> string" where
  "strip_leading ws s =
     (case List.find (\<lambda>w. w \<noteq> [] \<and> take (length w) s = w) ws of
        None \<Rightarrow> s
      | Some w \<Rightarrow> strip_leading ws (drop (length w) s))"
  by pat_completeness auto
termination
proof (relation "measure (\<lambda>(ws, s). length s)")
  show "wf (measure (\<lambda>(ws, s). length s))" by simp
next
  fix ws :: "string list" and s w :: string
  assume "List.find (\<lambda>w. w \<noteq> [] \<and> take (length w) s = w) ws = Some w"
  then have "w \<noteq> []" and "take (length w) s = w"
    by (auto simp: find_Some_iff)
  then have "length w \<le> length s"
    by (auto dest: arg_cong [where f = length])
  with \<open>w \<noteq> []\<close> show "((ws, drop (length w) s), (ws, s)) \<in> measure (\<lambda>(ws, s). length s)"
    by (cases w) auto
qed

declare strip_leading.simps [simp del]

text \<open>White space is trimmed at both ends.\<close>

definition trim :: "string \<Rightarrow> string" where
  "trim s = rev (strip_leading (map rev white_space) (rev (strip_leading white_space s)))"

definition digit_val :: "char \<Rightarrow> nat option" where
  "digit_val c =
     (let n = (of_char c :: nat) in
      if 48 \<le> n \<and> n \<le> 57 then Some (n - 48)
      else if 97 \<le> n \<and> n \<le> 102 then Some (n - 87)
      else if 65 \<le> n \<and> n \<le> 70 then Some (n - 55)
      else None)"

fun parse_digits :: "nat \<Rightarrow> int \<Rightarrow> string \<Rightarrow> int option" where
  "parse_digits b acc [] = Some acc"
| "parse_digits b acc (c # cs) =
     (case digit_val c of
        None \<Rightarrow> None
      | Some d \<Rightarrow> if d < b then parse_digits b (acc * int b + int d) cs else None)"

text \<open>One or more digits of base \<open>b\<close>.\<close>

definition parse_nat :: "nat \<Rightarrow> string \<Rightarrow> int option" where
  "parse_nat b s = (if s = [] then None else parse_digits b 0 s)"

text \<open>\<open>ExponentPart\<close> without its letter: an optional sign and one or more digits.\<close>

definition parse_exponent :: "string \<Rightarrow> int option" where
  "parse_exponent s =
     (case s of
        [] \<Rightarrow> None
      | c # cs \<Rightarrow>
          if c = CHR ''-'' then map_option uminus (parse_nat 10 cs)
          else if c = CHR ''+'' then parse_nat 10 cs
          else parse_nat 10 s)"

text \<open>
  The mantissa: \<open>digits\<close>, \<open>digits.\<close>, \<open>digits.digits\<close> or \<open>.digits\<close>. The result is the
  number its digits spell without the point, and how many digits stand after the point.
\<close>

definition parse_mantissa :: "string \<Rightarrow> (int \<times> nat) option" where
  "parse_mantissa m =
     (let ip = takeWhile (\<lambda>c. c \<noteq> CHR ''.'') m;
          fp = dropWhile (\<lambda>c. c \<noteq> CHR ''.'') m
      in if fp = [] then map_option (\<lambda>i. (i, 0)) (parse_nat 10 ip)
         else if ip = [] \<and> tl fp = [] then None
         else map_option (\<lambda>i. (i, length (tl fp))) (parse_digits 10 0 (ip @ tl fp)))"

subsubsection \<open>The Number value of a mathematical value\<close>

text \<open>
  \<open>to_double a b\<close> is the double nearest to \<open>a / b\<close> (for \<open>0 \<le> a\<close>, \<open>0 < b\<close>), ties to the
  even significand: 53 bits of significand from the binary exponent of \<open>a / b\<close>, which
  is at least \<open>-1022\<close> (below it the doubles are denormal and a value may round to \<open>0\<close>);
  a result of \<open>2^1024\<close> or more is the infinity.
\<close>

function bit_length :: "int \<Rightarrow> nat" where
  "bit_length n = (if n \<le> 0 then 0 else Suc (bit_length (n div 2)))"
  by pat_completeness auto
termination
  by (relation "measure nat") auto

declare bit_length.simps [simp del]

text \<open>The integer part of the binary logarithm of \<open>a / b\<close>.\<close>

definition floor_log2 :: "int \<Rightarrow> int \<Rightarrow> int" where
  "floor_log2 a b =
     (let d = int (bit_length a) - int (bit_length b)
      in if (if 0 \<le> d then b * 2 ^ nat d \<le> a else b \<le> a * 2 ^ nat (- d)) then d else d - 1)"

text \<open>The integer nearest to \<open>a / b\<close>, the even one of two that are as near.\<close>

definition round_half_even :: "int \<Rightarrow> int \<Rightarrow> int" where
  "round_half_even a b =
     (let d = a div b; r = a mod b
      in if 2 * r < b then d
         else if b < 2 * r then d + 1
         else if even d then d else d + 1)"

definition to_double :: "int \<Rightarrow> int \<Rightarrow> jsnum" where
  "to_double a b =
     (if a = 0 then Num 0
      else
        let e = max (floor_log2 a b) (- 1022);
            s = e - 52;
            n = (if 0 \<le> s then round_half_even a (b * 2 ^ nat s)
                 else round_half_even (a * 2 ^ nat (- s)) b);
            r = (if 0 \<le> s then of_int n * 2 ^ nat s else of_int n / 2 ^ nat (- s))
        in if 2 ^ 1024 \<le> r then PosInfinity else Num r)"

text \<open>The Number value of \<open>m * 10^k\<close>.\<close>

definition decimal_value :: "int \<Rightarrow> int \<Rightarrow> jsnum" where
  "decimal_value m k =
     (if 0 \<le> k then to_double (m * 10 ^ nat k) 1 else to_double m (10 ^ nat (- k)))"

subsubsection \<open>\<open>StringToNumber\<close>\<close>

text \<open>\<open>StrUnsignedDecimalLiteral\<close>.\<close>

definition parse_unsigned_decimal :: "string \<Rightarrow> jsnum" where
  "parse_unsigned_decimal s =
     (if s = ''Infinity'' then PosInfinity
      else
        let is_e = (\<lambda>c. c = CHR ''e'' \<or> c = CHR ''E'');
            m = takeWhile (\<lambda>c. \<not> is_e c) s;
            e = dropWhile (\<lambda>c. \<not> is_e c) s
        in (case parse_mantissa m of
              None \<Rightarrow> NaN
            | Some (digits, f) \<Rightarrow>
                if e = [] then decimal_value digits (- int f)
                else (case parse_exponent (tl e) of
                        None \<Rightarrow> NaN
                      | Some x \<Rightarrow> decimal_value digits (x - int f))))"

text \<open>The sign of a literal; the negative of zero is the negative zero.\<close>

fun negate :: "jsnum \<Rightarrow> jsnum" where
  "negate NaN = NaN"
| "negate PosInfinity = NegInfinity"
| "negate NegInfinity = PosInfinity"
| "negate NegZero = Num 0"
| "negate (Num r) = (if r = 0 then NegZero else Num (- r))"

text \<open>\<open>0x\<close>, \<open>0o\<close> and \<open>0b\<close> literals; they take no sign.\<close>

definition radix_of :: "string \<Rightarrow> nat option" where
  "radix_of s =
     (case s of
        c0 # c1 # _ \<Rightarrow>
          if c0 \<noteq> CHR ''0'' then None
          else if c1 = CHR ''x'' \<or> c1 = CHR ''X'' then Some 16
          else if c1 = CHR ''o'' \<or> c1 = CHR ''O'' then Some 8
          else if c1 = CHR ''b'' \<or> c1 = CHR ''B'' then Some 2
          else None
      | _ \<Rightarrow> None)"

text \<open>
  \<open>StringToNumber\<close>: white space is trimmed, the empty string is \<open>0\<close>, a literal of the
  grammar has the Number value of its mathematical value, anything else is NaN.
\<close>

definition string_to_number :: "string \<Rightarrow> jsnum" where
  "string_to_number s0 =
     (let s = trim s0 in
      if s = [] then Num 0
      else (case radix_of s of
              Some b \<Rightarrow> (case parse_nat b (drop 2 s) of None \<Rightarrow> NaN | Some n \<Rightarrow> to_double n 1)
            | None \<Rightarrow>
                if hd s = CHR ''-'' then negate (parse_unsigned_decimal (tl s))
                else if hd s = CHR ''+'' then parse_unsigned_decimal (tl s)
                else parse_unsigned_decimal s))"

fun js_Number :: "jsval \<Rightarrow> jsnum" where
  "js_Number Undefined = NaN"
| "js_Number Null = Num 0"
| "js_Number (Bool b) = (if b then Num 1 else Num 0)"
| "js_Number (Str s) = string_to_number s"
| "js_Number (Obj kvs) = NaN"

text \<open>\<open>Number.isNaN\<close>.\<close>

definition isNaN :: "jsnum \<Rightarrow> bool" where
  "isNaN n = (n = NaN)"

section \<open>The filter translator: \<open>src/utils/convert-filter.js\<close>\<close>

text \<open>
  A property of a resource, as the adapter's \<open>Property\<close> class presents it: \<open>name()\<close>,
  \<open>type()\<close> (a type name such as \<open>'string'\<close>, \<open>'number'\<close>, \<open>'date'\<close>) and
  \<open>isEditable()\<close>.
\<close>

record property =
  pname :: string
  ptype :: string
  isEditable :: bool

text \<open>One clause of a filter: \<open>{ property, value }\<close>.\<close>

record filterProperty =
  clause_property :: property
  clause_value :: jsval

text \<open>
  \<open>escape\<close> of the package \<open>escape-regexp\<close>:
  \<open>String(str).replace(/([.*+?=^!:${}()|[\]\/\\])/g, '\\$1')\<close>, a backslash before
  each character of the class.
\<close>

definition regexp_special :: "char \<Rightarrow> bool" where
  "regexp_special c = (c \<in> set (''.*+?=^!:${}()|[]/'' @ [CHR 0x5C]))"

definition escape :: "jsval \<Rightarrow> string" where
  "escape str = concat (map (\<lambda>c. if regexp_special c then [CHR 0x5C, c] else [c]) (js_String str))"

text \<open>
  The operators of \<open>sequelize\<close>'s \<open>Op\<close> (symbols), and the query expressions built by
  \<open>col\<close>, \<open>fn\<close> and \<open>where\<close>.
\<close>

datatype op = Op_and | Op_like | Op_gte | Op_lte

datatype sql_arg = Col string | Lit string

datatype sql_fn = Fn string "sql_arg list"

datatype where_expr = Where sql_fn "(op \<times> sql_fn) list"

text \<open>
  A key of the condition object is the symbol \<open>Op.and\<close> or a property name. Its value is
  the array of raw sub-conditions (string clauses), a number (number clauses), an object
  of range bounds (date clauses) or the clause's value as it came.
\<close>

datatype ckey = Sym op | Name string

datatype cval =
    AndList "where_expr list"
  | NumEq jsnum
  | Range "(op \<times> jsval) list"
  | Eq jsval

type_synonym condition = "ckey \<rightharpoonup> cval"

text \<open>
  The object literal \<open>{ [k]: v, ...memo }\<close>: the key is set first, then the properties of
  \<open>memo\<close> are copied over it.
\<close>

definition literal_spread :: "ckey \<Rightarrow> cval \<Rightarrow> condition \<Rightarrow> condition" where
  "literal_spread k v memo = (Map.empty(k \<mapsto> v)) ++ memo"

text \<open>
  \<open>{ ...value.from && { [Op.gte]: value.from }, ...value.to && { [Op.lte]: value.to } }\<close>:
  spreading a falsy value adds nothing.
\<close>

definition range_bounds :: "jsval \<Rightarrow> jsval \<Rightarrow> (op \<times> jsval) list" where
  "range_bounds from to =
     (if truthy from then [(Op_gte, from)] else []) @ (if truthy to then [(Op_lte, to)] else [])"

text \<open>The callback of \<open>filter.reduce\<close>, one \<open>switch\<close> on \<open>property.type()\<close>.\<close>

definition reducer :: "condition \<Rightarrow> filterProperty \<Rightarrow> js_error + condition" where
  "reducer memo filterProperty =
     (let property = clause_property filterProperty;
          v = clause_value filterProperty
      in
      if ptype property = ''string'' then
        Inr (literal_spread (Sym Op_and)
               (AndList [Where (Fn ''LOWER'' [Col (pname property)])
                               [(Op_like, Fn ''LOWER'' [Lit (''%'' @ escape v @ ''%'')])]])
               memo)
      else if ptype property = ''number'' then
        (if \<not> isNaN (js_Number v)
         then Inr (literal_spread (Name (pname property)) (NumEq (js_Number v)) memo)
         else Inr memo)
      else if ptype property = ''date'' \<or> ptype property = ''datetime'' then
        (case js_get v ''from'' of
           Inl e \<Rightarrow> Inl e
         | Inr from \<Rightarrow>
             (case js_get v ''to'' of
                Inl e \<Rightarrow> Inl e
              | Inr to \<Rightarrow>
                  if truthy from \<or> truthy to
                  then Inr (literal_spread (Name (pname property)) (Range (range_bounds from to)) memo)
                  else Inr (literal_spread (Name (pname property)) (Eq v) memo)))
      else Inr (literal_spread (Name (pname property)) (Eq v) memo))"

text \<open>\<open>reduce\<close> over the clauses in order; an exception in the callback ends it.\<close>

fun reduce :: "('a \<Rightarrow> 'b \<Rightarrow> js_error + 'a) \<Rightarrow> 'b list \<Rightarrow> 'a \<Rightarrow> js_error + 'a" where
  "reduce f [] memo = Inr memo"
| "reduce f (x # xs) memo = (case f memo x of Inl e \<Rightarrow> Inl e | Inr memo' \<Rightarrow> reduce f xs memo')"

text \<open>\<open>convertFilter\<close>; \<open>None\<close> is an absent filter.\<close>

definition convertFilter :: "filterProperty list option \<Rightarrow> js_error + condition" where
  "convertFilter fltr =
     (case fltr of
        None \<Rightarrow> Inr Map.empty
      | Some clauses \<Rightarrow> reduce reducer clauses Map.empty)"

text \<open>The entry of a key in a translation (none when the translation threw).\<close>

definition entry :: "js_error + condition \<Rightarrow> ckey \<Rightarrow> cval option" where
  "entry r k = (case r of Inl e \<Rightarrow> None | Inr m \<Rightarrow> m k)"

section \<open>The resource: \<open>src/resource.js\<close>\<close>

subsection \<open>\<open>parseParams\<close>\<close>

text \<open>
  An object of form parameters is a map from its keys to their values. Objects live in a
  store, a list indexed by address, so that the copy \<open>parseParams\<close> works on and the
  object it was given are two cells of it.
\<close>

type_synonym params = "string \<rightharpoonup> jsval"

type_synonym heap = "params list"

text \<open>\<open>{ ...params }\<close>: a new object with the properties of the one at \<open>params\<close>.\<close>

definition spread_object :: "heap \<Rightarrow> nat \<Rightarrow> heap \<times> nat" where
  "spread_object h params = (h @ [h ! params], length h)"

text \<open>\<open>delete obj[k]\<close>.\<close>

definition delete_property :: "heap \<Rightarrow> nat \<Rightarrow> string \<Rightarrow> heap" where
  "delete_property h obj k = h[obj := (h ! obj)(k := None)]"

text \<open>The callback of \<open>this.properties().forEach\<close>.\<close>

definition parse_step :: "nat \<Rightarrow> heap \<Rightarrow> property \<Rightarrow> heap" where
  "parse_step parsedParams h property =
     (let v = (h ! parsedParams) (pname property);
          h1 = (if ptype property \<in> set [''number'', ''float'', ''reference'']
                then (if v = Some (Str [])
                      then delete_property h parsedParams (pname property)
                      else h)
                else h)
      in if \<not> isEditable property
         then delete_property h1 parsedParams (pname property)
         else h1)"

definition parseParams :: "property list \<Rightarrow> heap \<Rightarrow> nat \<Rightarrow> heap \<times> nat" where
  "parseParams properties h params =
     (case spread_object h params of
        (h0, parsedParams) \<Rightarrow> (foldl (parse_step parsedParams) h0 properties, parsedParams))"

subsection \<open>The model and the storage collaborator\<close>

text \<open>
  What the resource reads of its \<open>SequelizeModel\<close>: the table name, the model's \<open>name\<close>,
  the primary key field and \<open>fieldRawAttributesMap\<close>, whose entries carry the column's
  data type.
\<close>

datatype data_type = VIRTUAL | OtherType string

record attribute =
  attr_type :: data_type

record sequelize_model =
  tableName :: string
  model_name :: string
  primaryKeyField :: string
  fieldRawAttributesMap :: "string \<rightharpoonup> attribute"

text \<open>The argument of \<open>findAll\<close>.\<close>

record query =
  q_where :: condition
  q_limit :: int
  q_offset :: int
  q_order :: "(string option \<times> string) list"

text \<open>
  The calls into the database, as functions of its state \<open>'db\<close>: each returns what the
  awaited promise resolves to, or the error it rejects with. \<open>st_findById\<close> resolves to
  \<open>None\<close> (\<open>null\<close>) when no row has the id.
\<close>

record ('db, 'row) storage =
  st_create :: "'db \<Rightarrow> params \<Rightarrow> js_error + 'row \<times> 'db"
  st_update :: "'db \<Rightarrow> params \<Rightarrow> string \<times> jsval \<Rightarrow> js_error + 'db"
  st_findById :: "'db \<Rightarrow> jsval \<Rightarrow> js_error + 'row option"
  st_findAll :: "'db \<Rightarrow> query \<Rightarrow> js_error + 'row list"
  toJSON :: "'row \<Rightarrow> params"

datatype base_record = BaseRecord params

subsection \<open>\<open>create\<close> and \<open>update\<close>\<close>

definition SEQUELIZE_VALIDATION_ERROR :: string where
  "SEQUELIZE_VALIDATION_ERROR = ''SequelizeValidationError''"

text \<open>
  The \<open>catch\<close> block of both. \<open>createValidationError\<close> lives in
  \<open>src/utils/create-validation-error.js\<close>; it is a parameter here.
\<close>

definition catch_error :: "(js_error \<Rightarrow> js_error) \<Rightarrow> js_error \<Rightarrow> js_error" where
  "catch_error createValidationError error =
     (if exn_name error = SEQUELIZE_VALIDATION_ERROR then createValidationError error else error)"

definition create ::
  "property list \<Rightarrow> (js_error \<Rightarrow> js_error) \<Rightarrow> ('db, 'row) storage \<Rightarrow> 'db \<Rightarrow> heap \<Rightarrow> nat
     \<Rightarrow> js_error + params \<times> 'db" where
  "create properties createValidationError st db h params =
     (case parseParams properties h params of
        (h1, parsedParams) \<Rightarrow>
          (case st_create st db (h1 ! parsedParams) of
             Inr (record, db1) \<Rightarrow> Inr (toJSON st record, db1)
           | Inl error \<Rightarrow> Inl (catch_error createValidationError error)))"

definition update ::
  "sequelize_model \<Rightarrow> property list \<Rightarrow> (js_error \<Rightarrow> js_error) \<Rightarrow> ('db, 'row) storage \<Rightarrow> 'db
     \<Rightarrow> heap \<Rightarrow> jsval \<Rightarrow> nat \<Rightarrow> js_error + params \<times> 'db" where
  "update model properties createValidationError st db h ident params =
     (case parseParams properties h params of
        (h1, parsedParams) \<Rightarrow>
          (case st_update st db (h1 ! parsedParams) (primaryKeyField model, ident) of
             Inl error \<Rightarrow> Inl (catch_error createValidationError error)
           | Inr db1 \<Rightarrow>
               (case st_findById st db1 ident of
                  Inl error \<Rightarrow> Inl (catch_error createValidationError error)
                | Inr None \<Rightarrow>
                    Inl (catch_error createValidationError
                           (TypeError ''Cannot read property toJSON of null''))
                | Inr (Some record) \<Rightarrow> Inr (toJSON st record, db1))))"

subsection \<open>\<open>find\<close>\<close>

text \<open>The second argument of \<open>find\<close>; \<open>None\<close> is a key that is not given.\<close>

record sort_options =
  direction :: "string option"
  sortBy :: "string option"

record find_options =
  opt_limit :: "int option"
  opt_offset :: "int option"
  opt_sort :: "sort_options option"

text \<open>A value used as a property key or in a template literal: \<open>undefined\<close> reads \<open>undefined\<close>.\<close>

definition property_key :: "string option \<Rightarrow> string" where
  "property_key k = (case k of None \<Rightarrow> ''undefined'' | Some s \<Rightarrow> s)"

text \<open>\<open>toUpperCase\<close>, on the ASCII letters (admin-bro passes \<open>asc\<close> or \<open>desc\<close>).\<close>

definition toUpperCase :: "string \<Rightarrow> string" where
  "toUpperCase s =
     map (\<lambda>c. let n = (of_char c :: nat) in if 97 \<le> n \<and> n \<le> 122 then char_of (n - 32) else c) s"

definition virtual_message :: "string option \<Rightarrow> string \<Rightarrow> string" where
  "virtual_message field resource =
     ''Cannot sort on VIRTUAL Datatype '' @ [CHR 0x22] @ property_key field @ [CHR 0x22]
       @ '' on resource '' @ [CHR 0x22] @ resource @ [CHR 0x22]
       @ ''! You can provide a different sort by field to avoid this issue, see: ''
       @ ''https://adminbro.com/ResourceOptions.html#sort''"

text \<open>The destructuring \<open>sort = {}\<close> followed by \<open>{ direction, sortBy } = sort\<close>.\<close>

definition sort_of :: "find_options \<Rightarrow> sort_options" where
  "sort_of opts =
     (case opt_sort opts of None \<Rightarrow> \<lparr>direction = None, sortBy = None\<rparr> | Some s \<Rightarrow> s)"

text \<open>
  \<open>fieldRawAttributesMap\<close> is a plain object, so \<open>fieldRawAttributesMap[k]\<close> finds an own
  entry, or else a member the object inherits from \<open>Object.prototype\<close>, or else
  \<open>undefined\<close>. The names \<open>Object.prototype\<close> defines:
\<close>

definition object_prototype_keys :: "string list" where
  "object_prototype_keys =
     [''constructor'', ''__defineGetter__'', ''__defineSetter__'', ''hasOwnProperty'',
      ''__lookupGetter__'', ''__lookupSetter__'', ''isPrototypeOf'', ''propertyIsEnumerable'',
      ''toString'', ''valueOf'', ''__proto__'', ''toLocaleString'']"

datatype 'a lookup = Own 'a | Inherited | Missing

definition js_lookup :: "(string \<rightharpoonup> 'a) \<Rightarrow> string \<Rightarrow> 'a lookup" where
  "js_lookup obj k =
     (case obj k of
        Some a \<Rightarrow> Own a
      | None \<Rightarrow> if k \<in> set object_prototype_keys then Inherited else Missing)"

text \<open>
  \<open>found.type instanceof DataTypes.VIRTUAL\<close>: an inherited member (a function, or the
  prototype itself) has no \<open>type\<close>, and \<open>undefined instanceof\<close> is false.
\<close>

fun type_is_virtual :: "attribute lookup \<Rightarrow> bool" where
  "type_is_virtual (Own attr) = (attr_type attr = VIRTUAL)"
| "type_is_virtual Inherited = False"
| "type_is_virtual Missing = False"

text \<open>
  \<open>find\<close> returns its result together with the queries it sent to the database, in
  order.
\<close>

definition find ::
  "sequelize_model \<Rightarrow> ('db, 'row) storage \<Rightarrow> 'db \<Rightarrow> filterProperty list option
     \<Rightarrow> find_options option \<Rightarrow> (js_error + base_record list) \<times> query list" where
  "find model st db fltr options =
     (case options of
        None \<Rightarrow> (Inl (TypeError ''Cannot destructure property limit of undefined''), [])
      | Some opts \<Rightarrow>
          (let limit = (case opt_limit opts of None \<Rightarrow> 20 | Some l \<Rightarrow> l);
               offset = (case opt_offset opts of None \<Rightarrow> 0 | Some off \<Rightarrow> off);
               srt = sort_of opts;
               found = js_lookup (fieldRawAttributesMap model) (property_key (sortBy srt))
           in if found = Missing
              then (Inl (TypeError ''Cannot read property type of undefined''), [])
              else if type_is_virtual found
              then (Inl (Error (virtual_message (sortBy srt) (model_name model))), [])
              else (case convertFilter fltr of
                      Inl e \<Rightarrow> (Inl e, [])
                    | Inr w \<Rightarrow>
                        (let dir = (case direction srt of
                                      None \<Rightarrow> ''asc''
                                    | Some d \<Rightarrow> if d = [] then ''asc'' else d);
                             q = \<lparr>q_where = w, q_limit = limit, q_offset = offset,
                                  q_order = [(sortBy srt, toUpperCase dir)]\<rparr>
                         in case st_findAll st db q of
                              Inl e \<Rightarrow> (Inl e, [q])
                            | Inr rows \<Rightarrow>
                                (Inr (map (\<lambda>r. BaseRecord (toJSON st r)) rows), [q])))))"

section \<open>Vocabulary of the properties\<close>

text \<open>The key a clause writes when it writes one.\<close>

definition clause_key :: "filterProperty \<Rightarrow> ckey" where
  "clause_key c =
     (if ptype (clause_property c) = ''string'' then Sym Op_and
      else Name (pname (clause_property c)))"

text \<open>
  A date clause reads \<open>value.from\<close>, which throws on \<open>undefined\<close> and \<open>null\<close>; every
  other clause translates without an exception.
\<close>

definition clause_ok :: "filterProperty \<Rightarrow> bool" where
  "clause_ok c =
     (if ptype (clause_property c) = ''date'' \<or> ptype (clause_property c) = ''datetime''
      then clause_value c \<noteq> Undefined \<and> clause_value c \<noteq> Null
      else True)"

text \<open>The property names of a filter's clauses, in order.\<close>

definition cond_names :: "filterProperty list \<Rightarrow> string list" where
  "cond_names fs = map (\<lambda>c. pname (clause_property c)) fs"

abbreviation clause :: "string \<Rightarrow> string \<Rightarrow> jsval \<Rightarrow> filterProperty" where
  "clause n t v \<equiv> \<lparr>clause_property = \<lparr>pname = n, ptype = t, isEditable = True\<rparr>, clause_value = v\<rparr>"

text \<open>The types for which \<open>parseParams\<close> drops an empty string.\<close>

definition numeric_type :: "property \<Rightarrow> bool" where
  "numeric_type p = (ptype p = ''number'' \<or> ptype p = ''float'' \<or> ptype p = ''reference'')"

text \<open>Whether \<open>parseParams\<close> deletes the key of property \<open>p\<close> from the object \<open>obj\<close>.\<close>

definition removes :: "params \<Rightarrow> property \<Rightarrow> bool" where
  "removes obj p =
     (\<not> isEditable p \<or> (numeric_type p \<and> obj (pname p) = Some (Str [])))"

abbreviation mk_property :: "string \<Rightarrow> string \<Rightarrow> bool \<Rightarrow> property" where
  "mk_property n t e \<equiv> \<lparr>pname = n, ptype = t, isEditable = e\<rparr>"

text \<open>For the examples: a database every call of which rejects with the error \<open>e\<close>.\<close>

definition failing_storage :: "js_error \<Rightarrow> (unit, unit) storage" where
  "failing_storage e =
     \<lparr>st_create = (\<lambda>db p. Inl e), st_update = (\<lambda>db p w. Inl e),
      st_findById = (\<lambda>db i. Inl e), st_findAll = (\<lambda>db q. Inl e), toJSON = (\<lambda>r. Map.empty)\<rparr>"

text \<open>For the examples: a database without rows, every call of which succeeds.\<close>

definition empty_storage :: "(unit, unit) storage" where
  "empty_storage =
     \<lparr>st_create = (\<lambda>db p. Inr ((), db)), st_update = (\<lambda>db p w. Inr db),
      st_findById = (\<lambda>db i. Inr None), st_findAll = (\<lambda>db q. Inr []), toJSON = (\<lambda>r. Map.empty)\<rparr>"

section \<open>The filter translator: lemmas\<close>

lemma literal_spread_apply:
  "literal_spread k v memo k' =
     (case memo k' of Some y \<Rightarrow> Some y | None \<Rightarrow> if k' = k then Some v else None)"
  by (simp add: literal_spread_def map_add_def split: option.splits)

lemma js_get_ok: "v \<noteq> Undefined \<Longrightarrow> v \<noteq> Null \<Longrightarrow> \<exists>x. js_get v k = Inr x"
  by (cases v) (auto split: option.splits)

lemma reducer_keeps:
  assumes "reducer memo c = Inr m" and "memo k = Some v"
  shows "m k = Some v"
  using assms
  by (auto simp: reducer_def Let_def literal_spread_apply split: if_splits sum.splits)

lemma reduce_keeps:
  "reduce reducer cs memo = Inr m \<Longrightarrow> memo k = Some v \<Longrightarrow> m k = Some v"
proof (induction cs arbitrary: memo)
  case Nil
  then show ?case by simp
next
  case (Cons c cs)
  then show ?case
    by (auto split: sum.splits dest: reducer_keeps)
qed

lemma reducer_other_key:
  assumes "reducer memo c = Inr m" and "k \<noteq> clause_key c"
  shows "m k = memo k"
  using assms
  by (auto simp: reducer_def Let_def clause_key_def literal_spread_apply
           split: if_splits sum.splits option.splits)

lemma reduce_other_key:
  "reduce reducer cs memo = Inr m \<Longrightarrow> k \<notin> clause_key ` set cs \<Longrightarrow> m k = memo k"
proof (induction cs arbitrary: memo)
  case Nil
  then show ?case by simp
next
  case (Cons c cs)
  from Cons.prems obtain m1 where s: "reducer memo c = Inr m1" and r: "reduce reducer cs m1 = Inr m"
    by (auto split: sum.splits)
  from Cons.prems have "k \<noteq> clause_key c" and "k \<notin> clause_key ` set cs" by auto
  with Cons.IH [OF r] reducer_other_key [OF s] show ?case by simp
qed

lemma reduce_append:
  "reduce f (xs @ ys) memo = (case reduce f xs memo of Inl e \<Rightarrow> Inl e | Inr m \<Rightarrow> reduce f ys m)"
  by (induction xs arbitrary: memo) (auto split: sum.splits)

lemma reducer_total: "clause_ok c \<Longrightarrow> \<exists>m. reducer memo c = Inr m"
  by (cases "clause_value c")
     (auto simp: reducer_def Let_def clause_ok_def split: sum.splits option.splits)

lemma reduce_total: "list_all clause_ok cs \<Longrightarrow> \<exists>m. reduce reducer cs memo = Inr m"
proof (induction cs arbitrary: memo)
  case Nil
  then show ?case by simp
next
  case (Cons c cs)
  then obtain m1 where "reducer memo c = Inr m1"
    using reducer_total [of c memo] by auto
  with Cons show ?case by auto
qed

text \<open>The first clause that writes a key decides its entry.\<close>

lemma reduce_first:
  assumes r: "reduce reducer (pre @ c # post) Map.empty = Inr m"
    and pre: "k \<notin> clause_key ` set pre"
    and c: "reducer Map.empty c = Inr m1" "m1 k = Some v"
  shows "m k = Some v"
proof -
  from r obtain mp where p: "reduce reducer pre Map.empty = Inr mp"
    and r2: "reduce reducer (c # post) mp = Inr m"
    by (auto simp: reduce_append split: sum.splits)
  from r2 obtain mc where s: "reducer mp c = Inr mc" and r3: "reduce reducer post mc = Inr m"
    by (auto split: sum.splits)
  have "mp k = None" using reduce_other_key [OF p pre] by simp
  with s c have "mc k = Some v"
    by (auto simp: reducer_def Let_def literal_spread_apply split: if_splits sum.splits option.splits)
  with r3 show ?thesis by (rule reduce_keeps)
qed

lemma reduce_untouched:
  assumes r: "reduce reducer (pre @ c # post) Map.empty = Inr m"
    and pre: "k \<notin> clause_key ` set pre" and post: "k \<notin> clause_key ` set post"
    and c: "reducer Map.empty c = Inr Map.empty"
  shows "m k = None"
proof -
  from r obtain mp where p: "reduce reducer pre Map.empty = Inr mp"
    and r2: "reduce reducer (c # post) mp = Inr m"
    by (auto simp: reduce_append split: sum.splits)
  from r2 obtain mc where s: "reducer mp c = Inr mc" and r3: "reduce reducer post mc = Inr m"
    by (auto split: sum.splits)
  have "mp k = None" using reduce_other_key [OF p pre] by simp
  with s c have "mc k = None"
    by (auto simp: reducer_def Let_def literal_spread_apply fun_eq_iff split: if_splits sum.splits option.splits)
  with reduce_other_key [OF r3 post] show ?thesis by simp
qed


lemma name_clause_entry:
  assumes c: "c \<in> set fs" and d: "distinct (cond_names fs)"
    and ok: "list_all clause_ok fs" and t: "ptype (clause_property c) \<noteq> ''string''"
  shows "\<exists>m m1. convertFilter (Some fs) = Inr m \<and> reducer Map.empty c = Inr m1 \<and>
           m (Name (pname (clause_property c))) = m1 (Name (pname (clause_property c)))"
proof -
  let ?k = "Name (pname (clause_property c))"
  from c obtain pre post where fs: "fs = pre @ c # post" by (auto dest: split_list)
  from d fs have np: "pname (clause_property c) \<notin> (\<lambda>c. pname (clause_property c)) ` set pre"
    and nq: "pname (clause_property c) \<notin> (\<lambda>c. pname (clause_property c)) ` set post"
    by (auto simp: cond_names_def)
  have pre: "?k \<notin> clause_key ` set pre"
    using np by (auto simp: clause_key_def image_iff split: if_splits)
  have post: "?k \<notin> clause_key ` set post"
    using nq by (auto simp: clause_key_def image_iff split: if_splits)
  from ok obtain m where m: "reduce reducer fs Map.empty = Inr m"
    using reduce_total by blast
  from ok c have "clause_ok c" by (auto simp: list_all_iff)
  then obtain m1 where m1: "reducer Map.empty c = Inr m1"
    using reducer_total by blast
  have "m ?k = m1 ?k"
  proof (cases "m1 ?k")
    case (Some v)
    with reduce_first [OF m [unfolded fs] pre m1] show ?thesis by simp
  next
    case None
    with m1 t have "m1 = Map.empty"
      by (auto simp: reducer_def Let_def literal_spread_apply split: if_splits sum.splits)
    with reduce_untouched [OF m [unfolded fs] pre post] m1 None show ?thesis by simp
  qed
  with m m1 show ?thesis by (auto simp: convertFilter_def)
qed



lemma string_to_number_empty: "string_to_number [] = Num 0"
  by code_simp


lemma escape_example:
  "escape (Str ''a.b*c'') = [CHR ''a'', CHR 0x5C, CHR ''.'', CHR ''b'', CHR 0x5C, CHR ''*'', CHR ''c'']"
  by (simp add: escape_def regexp_special_def)

text \<open>The wildcards of \<open>LIKE\<close> are not in the class: \<open>escape\<close> leaves them as they are.\<close>

lemma escape_like_wildcards: "escape (Str ''50%_off'') = ''50%_off''"
  by (simp add: escape_def regexp_special_def)

lemma string_clause_entry:
  assumes fs: "fs = pre @ c # post"
    and pre: "list_all (\<lambda>c'. ptype (clause_property c') \<noteq> ''string'') pre"
    and ok: "list_all clause_ok fs"
    and t: "ptype (clause_property c) = ''string''"
  shows "\<exists>m. convertFilter (Some fs) = Inr m \<and>
           m (Sym Op_and) =
             Some (AndList [Where (Fn ''LOWER'' [Col (pname (clause_property c))])
                                  [(Op_like, Fn ''LOWER'' [Lit (''%'' @ escape (clause_value c) @ ''%'')])]])"
proof -
  from ok obtain m where m: "reduce reducer fs Map.empty = Inr m"
    using reduce_total by blast
  have k: "Sym Op_and \<notin> clause_key ` set pre"
    using pre by (auto simp: clause_key_def list_all_iff)
  have "reducer Map.empty c =
          Inr (literal_spread (Sym Op_and)
                 (AndList [Where (Fn ''LOWER'' [Col (pname (clause_property c))])
                                 [(Op_like, Fn ''LOWER'' [Lit (''%'' @ escape (clause_value c) @ ''%'')])]])
                 Map.empty)"
    using t by (simp add: reducer_def)
  from reduce_first [OF m [unfolded fs] k this] m show ?thesis
    by (simp add: convertFilter_def literal_spread_apply)
qed

lemma escape_plain: "list_all (\<lambda>c. \<not> regexp_special c) s \<Longrightarrow> escape (Str s) = s"
  by (induction s) (auto simp: escape_def)

section \<open>The filter translator: theorems\<close>

text \<open>
  C1. Every clause of a filter over distinct properties should leave its own predicate in
  the condition. The code keeps the string predicates under the one key \<open>Op.and\<close>, and
  \<open>...memo\<close> is spread after it: of two string clauses on \<open>firstName\<close> and \<open>lastName\<close> the
  condition holds the predicate of the first only, the one on \<open>lastName\<close> is gone.
\<close>

theorem later_string_clause_dropped:
  "convertFilter (Some [clause ''firstName'' ''string'' (Str ''john''),
                        clause ''lastName'' ''string'' (Str ''doe'')]) =
     Inr (Map.empty(Sym Op_and \<mapsto>
            AndList [Where (Fn ''LOWER'' [Col ''firstName''])
                           [(Op_like, Fn ''LOWER'' [Lit ''%john%''])]]))"
proof -
  have j: "escape (Str ''john'') = ''john''"
    by (rule escape_plain) (simp add: regexp_special_def)
  have d: "escape (Str ''doe'') = ''doe''"
    by (rule escape_plain) (simp add: regexp_special_def)
  have r1: "reducer Map.empty (clause ''firstName'' ''string'' (Str ''john'')) =
     Inr (Map.empty(Sym Op_and \<mapsto>
            AndList [Where (Fn ''LOWER'' [Col ''firstName''])
                           [(Op_like, Fn ''LOWER'' [Lit ''%john%''])]]))"
    by (simp add: reducer_def literal_spread_def j)
  have r2: "reducer (Map.empty(Sym Op_and \<mapsto>
            AndList [Where (Fn ''LOWER'' [Col ''firstName''])
                           [(Op_like, Fn ''LOWER'' [Lit ''%john%''])]])) (clause ''lastName'' ''string'' (Str ''doe'')) =
     Inr (Map.empty(Sym Op_and \<mapsto>
            AndList [Where (Fn ''LOWER'' [Col ''firstName''])
                           [(Op_like, Fn ''LOWER'' [Lit ''%john%''])]]))"
    by (simp add: reducer_def literal_spread_def d)
  show ?thesis
    by (simp add: convertFilter_def r1 r2)
qed

text \<open>
  C2, as amended. A date or datetime clause whose value has neither a \<open>from\<close> nor a \<open>to\<close>
  bound (both read falsy) leaves the \<open>switch\<close> by \<open>break\<close> and gets the equality entry of
  the last \<open>return\<close>: in a filter over distinct properties none of whose clauses throws,
  the condition maps the property's name to the clause's value as it came.
\<close>

theorem date_clause_without_bounds:
  assumes "c \<in> set fs" and "distinct (cond_names fs)" and "list_all clause_ok fs"
    and "ptype (clause_property c) = ''date'' \<or> ptype (clause_property c) = ''datetime''"
    and "js_get (clause_value c) ''from'' = Inr from"
    and "js_get (clause_value c) ''to'' = Inr to"
    and "\<not> truthy from" and "\<not> truthy to"
  shows "\<exists>m. convertFilter (Some fs) = Inr m \<and>
           m (Name (pname (clause_property c))) = Some (Eq (clause_value c))"
proof -
  from assms(4) have "ptype (clause_property c) \<noteq> ''string''" by auto
  from name_clause_entry [OF assms(1-3) this] assms(4-8)
  show ?thesis
    by (auto simp: reducer_def Let_def literal_spread_apply)
qed

theorem date_clause_without_bounds_witness:
  "\<exists>m. convertFilter (Some [clause ''age'' ''number'' (Str ''42''),
                              clause ''createdAt'' ''date'' (Obj [(''from'', Str [])])]) = Inr m \<and>
       m (Name ''createdAt'') = Some (Eq (Obj [(''from'', Str [])]))"
  using date_clause_without_bounds
      [of "clause ''createdAt'' ''date'' (Obj [(''from'', Str [])])"
          "[clause ''age'' ''number'' (Str ''42''),
            clause ''createdAt'' ''date'' (Obj [(''from'', Str [])])]"
          "Str []" Undefined]
  by (simp add: cond_names_def clause_ok_def)

text \<open>
  The claim C2 as stated fails: for the value \<open>{}\<close> the condition has an entry under the
  property's name.
\<close>

theorem date_clause_without_bounds_counterexample:
  "entry (convertFilter (Some [clause ''createdAt'' ''date'' (Obj [])])) (Name ''createdAt'')
     = Some (Eq (Obj []))"
  by (simp add: entry_def convertFilter_def reducer_def literal_spread_def)



text \<open>
  C4. A number clause whose value is the empty string is not dropped: \<open>Number("")\<close> is
  \<open>0\<close>, and the condition maps the property's name to \<open>0\<close>.
\<close>

theorem number_clause_empty_string:
  assumes "c \<in> set fs" and "distinct (cond_names fs)" and "list_all clause_ok fs"
    and "ptype (clause_property c) = ''number''" and "clause_value c = Str []"
  shows "js_Number (clause_value c) = Num 0 \<and>
         (\<exists>m. convertFilter (Some fs) = Inr m \<and>
            m (Name (pname (clause_property c))) = Some (NumEq (Num 0)))"
proof -
  from assms(4) have "ptype (clause_property c) \<noteq> ''string''" by simp
  from name_clause_entry [OF assms(1-3) this] assms(4,5)
  show ?thesis
    by (auto simp: reducer_def Let_def literal_spread_apply isNaN_def string_to_number_empty)
qed

theorem number_clause_empty_string_witness:
  "\<exists>m. convertFilter (Some [clause ''email'' ''string'' (Str ''x''),
                              clause ''age'' ''number'' (Str [])]) = Inr m \<and>
       m (Name ''age'') = Some (NumEq (Num 0))"
  using number_clause_empty_string
      [of "clause ''age'' ''number'' (Str [])"
          "[clause ''email'' ''string'' (Str ''x''), clause ''age'' ''number'' (Str [])]"]
  by (simp add: cond_names_def clause_ok_def)

text \<open>
  C5. Every string clause should yield the sub-condition
  \<open>LOWER(column) LIKE LOWER('%' + escape(value) + '%')\<close>. A string clause that follows
  another string clause yields none: for the clauses \<open>firstName\<close> = \<open>john\<close> and
  \<open>lastName\<close> = \<open>a.b*c\<close> the condition holds the sub-condition on \<open>firstName\<close> and
  nothing on \<open>lastName\<close>.
\<close>

theorem second_string_clause_without_predicate:
  "convertFilter (Some [clause ''firstName'' ''string'' (Str ''john''),
                        clause ''lastName'' ''string'' (Str ''a.b*c'')]) =
     Inr (Map.empty(Sym Op_and \<mapsto>
            AndList [Where (Fn ''LOWER'' [Col ''firstName''])
                           [(Op_like, Fn ''LOWER'' [Lit ''%john%''])]]))"
proof -
  have j: "escape (Str ''john'') = ''john''"
    by (rule escape_plain) (simp add: regexp_special_def)
  have r1: "reducer Map.empty (clause ''firstName'' ''string'' (Str ''john'')) =
     Inr (Map.empty(Sym Op_and \<mapsto>
            AndList [Where (Fn ''LOWER'' [Col ''firstName''])
                           [(Op_like, Fn ''LOWER'' [Lit ''%john%''])]]))"
    by (simp add: reducer_def literal_spread_def j)
  have r2: "reducer (Map.empty(Sym Op_and \<mapsto>
            AndList [Where (Fn ''LOWER'' [Col ''firstName''])
                           [(Op_like, Fn ''LOWER'' [Lit ''%john%''])]]))
              (clause ''lastName'' ''string'' (Str ''a.b*c'')) =
     Inr (Map.empty(Sym Op_and \<mapsto>
            AndList [Where (Fn ''LOWER'' [Col ''firstName''])
                           [(Op_like, Fn ''LOWER'' [Lit ''%john%''])]]))"
    by (simp add: reducer_def literal_spread_def)
  show ?thesis
    by (simp add: convertFilter_def r1 r2)
qed

text \<open>
  C6. A date or datetime clause with at least one bound, in a filter over distinct
  properties none of whose clauses throws: the condition maps the property's name to a
  range holding \<open>Op.gte\<close> with \<open>from\<close> exactly when \<open>from\<close> is given and \<open>Op.lte\<close> with \<open>to\<close>
  exactly when \<open>to\<close> is given.
\<close>

theorem date_clause_range:
  assumes "c \<in> set fs" and "distinct (cond_names fs)" and "list_all clause_ok fs"
    and "ptype (clause_property c) = ''date'' \<or> ptype (clause_property c) = ''datetime''"
    and "js_get (clause_value c) ''from'' = Inr from"
    and "js_get (clause_value c) ''to'' = Inr to"
    and "truthy from \<or> truthy to"
  shows "\<exists>m. convertFilter (Some fs) = Inr m \<and>
           m (Name (pname (clause_property c))) =
             Some (Range ((if truthy from then [(Op_gte, from)] else []) @
                          (if truthy to then [(Op_lte, to)] else [])))"
proof -
  from assms(4) have "ptype (clause_property c) \<noteq> ''string''" by auto
  from name_clause_entry [OF assms(1-3) this] assms(4-7)
  show ?thesis
    by (auto simp: reducer_def Let_def literal_spread_apply range_bounds_def)
qed

theorem date_clause_range_witness:
  "(\<exists>m. convertFilter (Some [clause ''createdAt'' ''date'' (Obj [(''from'', Str ''2019-01-01'')]),
                               clause ''updatedAt'' ''datetime''
                                 (Obj [(''from'', Str ''2019-01-01''), (''to'', Str ''2019-12-31'')])]) = Inr m \<and>
        m (Name ''createdAt'') = Some (Range [(Op_gte, Str ''2019-01-01'')])) \<and>
   (\<exists>m. convertFilter (Some [clause ''createdAt'' ''date'' (Obj [(''from'', Str ''2019-01-01'')]),
                               clause ''updatedAt'' ''datetime''
                                 (Obj [(''from'', Str ''2019-01-01''), (''to'', Str ''2019-12-31'')])]) = Inr m \<and>
        m (Name ''updatedAt'') =
          Some (Range [(Op_gte, Str ''2019-01-01''), (Op_lte, Str ''2019-12-31'')]))"
  using date_clause_range
      [of "clause ''createdAt'' ''date'' (Obj [(''from'', Str ''2019-01-01'')])"
          "[clause ''createdAt'' ''date'' (Obj [(''from'', Str ''2019-01-01'')]),
            clause ''updatedAt'' ''datetime''
              (Obj [(''from'', Str ''2019-01-01''), (''to'', Str ''2019-12-31'')])]"
          "Str ''2019-01-01''" Undefined]
    date_clause_range
      [of "clause ''updatedAt'' ''datetime''
              (Obj [(''from'', Str ''2019-01-01''), (''to'', Str ''2019-12-31'')])"
          "[clause ''createdAt'' ''date'' (Obj [(''from'', Str ''2019-01-01'')]),
            clause ''updatedAt'' ''datetime''
              (Obj [(''from'', Str ''2019-01-01''), (''to'', Str ''2019-12-31'')])]"
          "Str ''2019-01-01''" "Str ''2019-12-31''"]
  by (simp add: cond_names_def clause_ok_def)

section \<open>The resource: lemmas\<close>

lemma parse_step_length: "length (parse_step pp h p) = length h"
  by (simp add: parse_step_def delete_property_def Let_def)

lemma parse_step_other: "a \<noteq> pp \<Longrightarrow> parse_step pp h p ! a = h ! a"
  by (simp add: parse_step_def delete_property_def Let_def)

lemma parse_step_at:
  "pp < length h \<Longrightarrow>
     (parse_step pp h p ! pp) k = (if pname p = k \<and> removes (h ! pp) p then None else (h ! pp) k)"
  by (auto simp: parse_step_def delete_property_def Let_def removes_def numeric_type_def)

lemma foldl_parse_step_length: "length (foldl (parse_step pp) h ps) = length h"
  by (induction ps arbitrary: h) (simp_all add: parse_step_length)

lemma foldl_parse_step_other: "a \<noteq> pp \<Longrightarrow> foldl (parse_step pp) h ps ! a = h ! a"
  by (induction ps arbitrary: h) (simp_all add: parse_step_other)

lemma foldl_parse_step_at:
  "pp < length h \<Longrightarrow>
     (foldl (parse_step pp) h ps ! pp) k =
       (if \<exists>p \<in> set ps. pname p = k \<and> removes (h ! pp) p then None else (h ! pp) k)"
proof (induction ps arbitrary: h)
  case Nil
  then show ?case by simp
next
  case (Cons p ps)
  let ?h1 = "parse_step pp h p"
  from Cons.prems have l: "pp < length ?h1" by (simp add: parse_step_length)
  have at: "\<And>k. (?h1 ! pp) k = (if pname p = k \<and> removes (h ! pp) p then None else (h ! pp) k)"
    using parse_step_at [OF Cons.prems] by simp
  have "(foldl (parse_step pp) ?h1 ps ! pp) k =
          (if \<exists>q \<in> set ps. pname q = k \<and> removes (?h1 ! pp) q then None else (?h1 ! pp) k)"
    by (rule Cons.IH [OF l])
  also have "\<dots> = (if \<exists>q \<in> set (p # ps). pname q = k \<and> removes (h ! pp) q then None else (h ! pp) k)"
  proof (cases "pname p = k \<and> removes (h ! pp) p")
    case True
    then have "(?h1 ! pp) k = None" by (simp add: at)
    with True show ?thesis by simp
  next
    case False
    then have same: "(?h1 ! pp) k = (h ! pp) k" by (auto simp: at)
    have "\<And>q. pname q = k \<Longrightarrow> removes (?h1 ! pp) q = removes (h ! pp) q"
      by (simp add: removes_def same)
    then have "(\<exists>q \<in> set ps. pname q = k \<and> removes (?h1 ! pp) q) =
               (\<exists>q \<in> set ps. pname q = k \<and> removes (h ! pp) q)"
      by blast
    with False same show ?thesis by auto
  qed
  finally show ?case by simp
qed

lemma parseParams_at:
  assumes "parseParams props h params = (h1, pp)"
  shows "(h1 ! pp) k =
           (if \<exists>p \<in> set props. pname p = k \<and> removes (h ! params) p then None else (h ! params) k)"
    and "pp = length h" and "length h1 = Suc (length h)" and "\<forall>a < length h. h1 ! a = h ! a"
  using assms
  by (auto simp: parseParams_def spread_object_def foldl_parse_step_at foldl_parse_step_other
        foldl_parse_step_length nth_append)

section \<open>The resource: theorems\<close>

text \<open>
  C7. \<open>parseParams\<close> on the object at a live address \<open>params\<close>: in the object it returns, the
  key of every number, float or reference property whose supplied value is the empty
  string is absent, the key of every property that is not editable is absent, and every
  key that names no declared property has the value it was given. The result is a new
  object; the one it was given, like every object that was there, is unchanged.
\<close>

theorem parseParams_normalizes:
  assumes "params < length h" and "parseParams properties h params = (h1, parsedParams)"
  shows "(\<forall>p \<in> set properties.
            ptype p \<in> set [''number'', ''float'', ''reference''] \<and> (h ! params) (pname p) = Some (Str [])
              \<longrightarrow> (h1 ! parsedParams) (pname p) = None)
       \<and> (\<forall>p \<in> set properties. \<not> isEditable p \<longrightarrow> (h1 ! parsedParams) (pname p) = None)
       \<and> (\<forall>k. k \<notin> pname ` set properties \<longrightarrow> (h1 ! parsedParams) k = (h ! params) k)
       \<and> parsedParams \<noteq> params \<and> h1 ! params = h ! params
       \<and> (\<forall>a < length h. h1 ! a = h ! a)"
proof -
  note at = parseParams_at [OF assms(2)]
  have 1: "\<forall>p \<in> set properties.
            ptype p \<in> set [''number'', ''float'', ''reference''] \<and> (h ! params) (pname p) = Some (Str [])
              \<longrightarrow> (h1 ! parsedParams) (pname p) = None"
    by (auto simp: at(1) removes_def numeric_type_def)
  have 2: "\<forall>p \<in> set properties. \<not> isEditable p \<longrightarrow> (h1 ! parsedParams) (pname p) = None"
    by (auto simp: at(1) removes_def)
  have 3: "\<forall>k. k \<notin> pname ` set properties \<longrightarrow> (h1 ! parsedParams) k = (h ! params) k"
    by (auto simp: at(1))
  have 4: "parsedParams \<noteq> params" using at(2) assms(1) by simp
  have 5: "h1 ! params = h ! params" using at(4) assms(1) by simp
  from 1 2 3 4 5 at(4) show ?thesis by blast
qed

theorem parseParams_normalizes_witness:
  "(fst (parseParams [mk_property ''id'' ''number'' False, mk_property ''userId'' ''reference'' True,
                      mk_property ''title'' ''string'' True]
           [[''id'' \<mapsto> Str ''7'', ''userId'' \<mapsto> Str [], ''title'' \<mapsto> Str [], ''extra'' \<mapsto> Str ''x'']] 0)
      ! snd (parseParams [mk_property ''id'' ''number'' False, mk_property ''userId'' ''reference'' True,
                      mk_property ''title'' ''string'' True]
           [[''id'' \<mapsto> Str ''7'', ''userId'' \<mapsto> Str [], ''title'' \<mapsto> Str [], ''extra'' \<mapsto> Str ''x'']] 0)) ''userId'' = None
   \<and> (fst (parseParams [mk_property ''id'' ''number'' False, mk_property ''userId'' ''reference'' True,
                      mk_property ''title'' ''string'' True]
           [[''id'' \<mapsto> Str ''7'', ''userId'' \<mapsto> Str [], ''title'' \<mapsto> Str [], ''extra'' \<mapsto> Str ''x'']] 0)
      ! snd (parseParams [mk_property ''id'' ''number'' False, mk_property ''userId'' ''reference'' True,
                      mk_property ''title'' ''string'' True]
           [[''id'' \<mapsto> Str ''7'', ''userId'' \<mapsto> Str [], ''title'' \<mapsto> Str [], ''extra'' \<mapsto> Str ''x'']] 0)) ''id'' = None
   \<and> (fst (parseParams [mk_property ''id'' ''number'' False, mk_property ''userId'' ''reference'' True,
                      mk_property ''title'' ''string'' True]
           [[''id'' \<mapsto> Str ''7'', ''userId'' \<mapsto> Str [], ''title'' \<mapsto> Str [], ''extra'' \<mapsto> Str ''x'']] 0)
      ! snd (parseParams [mk_property ''id'' ''number'' False, mk_property ''userId'' ''reference'' True,
                      mk_property ''title'' ''string'' True]
           [[''id'' \<mapsto> Str ''7'', ''userId'' \<mapsto> Str [], ''title'' \<mapsto> Str [], ''extra'' \<mapsto> Str ''x'']] 0)) ''extra'' = Some (Str ''x'')
   \<and> fst (parseParams [mk_property ''id'' ''number'' False, mk_property ''userId'' ''reference'' True,
                      mk_property ''title'' ''string'' True]
           [[''id'' \<mapsto> Str ''7'', ''userId'' \<mapsto> Str [], ''title'' \<mapsto> Str [], ''extra'' \<mapsto> Str ''x'']] 0) ! 0
       = [''id'' \<mapsto> Str ''7'', ''userId'' \<mapsto> Str [], ''title'' \<mapsto> Str [], ''extra'' \<mapsto> Str ''x'']"
  using parseParams_normalizes
    [of 0 "[[''id'' \<mapsto> Str ''7'', ''userId'' \<mapsto> Str [], ''title'' \<mapsto> Str [], ''extra'' \<mapsto> Str ''x'']]"
        "[mk_property ''id'' ''number'' False, mk_property ''userId'' ''reference'' True, mk_property ''title'' ''string'' True]"
        "fst (parseParams [mk_property ''id'' ''number'' False, mk_property ''userId'' ''reference'' True,
                      mk_property ''title'' ''string'' True]
           [[''id'' \<mapsto> Str ''7'', ''userId'' \<mapsto> Str [], ''title'' \<mapsto> Str [], ''extra'' \<mapsto> Str ''x'']] 0)"
        "snd (parseParams [mk_property ''id'' ''number'' False, mk_property ''userId'' ''reference'' True,
                      mk_property ''title'' ''string'' True]
           [[''id'' \<mapsto> Str ''7'', ''userId'' \<mapsto> Str [], ''title'' \<mapsto> Str [], ''extra'' \<mapsto> Str ''x'']] 0)"]
  by simp

text \<open>
  C8. When the database rejects the call of \<open>create\<close>, or the \<open>update\<close> or \<open>findById\<close>
  call of \<open>update\<close>, with an error \<open>e\<close>: the operation throws
  \<open>createValidationError(e)\<close> if the name of \<open>e\<close> is \<open>SequelizeValidationError\<close>, and \<open>e\<close>
  itself otherwise.
\<close>

theorem storage_errors_translated_or_rethrown:
  assumes "parseParams properties h params = (h1, parsedParams)"
  shows "(st_create st db (h1 ! parsedParams) = Inl e \<longrightarrow>
            create properties createValidationError st db h params =
              Inl (if exn_name e = ''SequelizeValidationError'' then createValidationError e else e))
       \<and> (st_update st db (h1 ! parsedParams) (primaryKeyField model, ident) = Inl e \<longrightarrow>
            update model properties createValidationError st db h ident params =
              Inl (if exn_name e = ''SequelizeValidationError'' then createValidationError e else e))
       \<and> (st_update st db (h1 ! parsedParams) (primaryKeyField model, ident) = Inr db1 \<and>
            st_findById st db1 ident = Inl e \<longrightarrow>
            update model properties createValidationError st db h ident params =
              Inl (if exn_name e = ''SequelizeValidationError'' then createValidationError e else e))"
  using assms
  by (simp add: create_def update_def catch_error_def SEQUELIZE_VALIDATION_ERROR_def)

theorem storage_errors_translated_or_rethrown_witness:
  "create [] (\<lambda>e. Exn ''ValidationError'' ''invalid'' (exn_errors e))
     (failing_storage (Exn ''SequelizeValidationError'' ''Validation error'' [(''email'', ''not an email'')]))
     () [Map.empty] 0
     = Inl (Exn ''ValidationError'' ''invalid'' [(''email'', ''not an email'')])
   \<and> update \<lparr>tableName = ''Users'', model_name = ''User'', primaryKeyField = ''id'',
              fieldRawAttributesMap = Map.empty\<rparr> []
       (\<lambda>e. Exn ''ValidationError'' ''invalid'' (exn_errors e))
       (failing_storage (Exn ''SequelizeDatabaseError'' ''connection lost'' []))
       () [Map.empty] (Str ''1'') 0
     = Inl (Exn ''SequelizeDatabaseError'' ''connection lost'' [])"
  using storage_errors_translated_or_rethrown
      [of "[]" "[Map.empty]" 0 "fst (parseParams [] [Map.empty] 0)" "snd (parseParams [] [Map.empty] 0)"
          "failing_storage (Exn ''SequelizeValidationError'' ''Validation error'' [(''email'', ''not an email'')])"
          "()" "Exn ''SequelizeValidationError'' ''Validation error'' [(''email'', ''not an email'')]"
          "\<lambda>e. Exn ''ValidationError'' ''invalid'' (exn_errors e)"]
    storage_errors_translated_or_rethrown
      [of "[]" "[Map.empty]" 0 "fst (parseParams [] [Map.empty] 0)" "snd (parseParams [] [Map.empty] 0)"
          "failing_storage (Exn ''SequelizeDatabaseError'' ''connection lost'' [])"
          "()" "Exn ''SequelizeDatabaseError'' ''connection lost'' []"
          "\<lambda>e. Exn ''ValidationError'' ''invalid'' (exn_errors e)"
          "\<lparr>tableName = ''Users'', model_name = ''User'', primaryKeyField = ''id'',
              fieldRawAttributesMap = Map.empty\<rparr>" "Str ''1''"]
  by (simp add: failing_storage_def)

text \<open>
  C9. \<open>find\<close> asked to sort by a field whose type is VIRTUAL throws an \<open>Error\<close> whose
  message holds the field and the model's name, and sends no query to the database.
\<close>

theorem find_rejects_virtual_sort:
  assumes "opt_sort opts = Some srt" and "sortBy srt = Some field"
    and "fieldRawAttributesMap model field = Some attr" and "attr_type attr = VIRTUAL"
  shows "find model st db fltr (Some opts) =
           (Inl (Exn ''Error''
                  (''Cannot sort on VIRTUAL Datatype '' @ [CHR 0x22] @ field @ [CHR 0x22]
                     @ '' on resource '' @ [CHR 0x22] @ model_name model @ [CHR 0x22]
                     @ ''! You can provide a different sort by field to avoid this issue, see: ''
                     @ ''https://adminbro.com/ResourceOptions.html#sort'') []),
            [])"
  using assms
  by (simp add: find_def sort_of_def property_key_def virtual_message_def Error_def js_lookup_def)

theorem find_rejects_virtual_sort_witness:
  "fst (find \<lparr>tableName = ''Users'', model_name = ''User'', primaryKeyField = ''id'',
              fieldRawAttributesMap = [''name'' \<mapsto> \<lparr>attr_type = VIRTUAL\<rparr>]\<rparr>
          (failing_storage (Exn ''SequelizeDatabaseError'' ''down'' [])) () None
          (Some \<lparr>opt_limit = None, opt_offset = None,
                  opt_sort = Some \<lparr>direction = None, sortBy = Some ''name''\<rparr>\<rparr>))
     = Inl (Exn ''Error''
              (''Cannot sort on VIRTUAL Datatype '' @ [CHR 0x22] @ ''name'' @ [CHR 0x22]
                 @ '' on resource '' @ [CHR 0x22] @ ''User'' @ [CHR 0x22]
                 @ ''! You can provide a different sort by field to avoid this issue, see: ''
                 @ ''https://adminbro.com/ResourceOptions.html#sort'') [])
   \<and> snd (find \<lparr>tableName = ''Users'', model_name = ''User'', primaryKeyField = ''id'',
              fieldRawAttributesMap = [''name'' \<mapsto> \<lparr>attr_type = VIRTUAL\<rparr>]\<rparr>
          (failing_storage (Exn ''SequelizeDatabaseError'' ''down'' [])) () None
          (Some \<lparr>opt_limit = None, opt_offset = None,
                  opt_sort = Some \<lparr>direction = None, sortBy = Some ''name''\<rparr>\<rparr>)) = []"
  using find_rejects_virtual_sort
      [of "\<lparr>opt_limit = None, opt_offset = None,
                  opt_sort = Some \<lparr>direction = None, sortBy = Some ''name''\<rparr>\<rparr>"
          "\<lparr>direction = None, sortBy = Some ''name''\<rparr>" "''name''"
          "\<lparr>tableName = ''Users'', model_name = ''User'', primaryKeyField = ''id'',
              fieldRawAttributesMap = [''name'' \<mapsto> \<lparr>attr_type = VIRTUAL\<rparr>]\<rparr>"
          "\<lparr>attr_type = VIRTUAL\<rparr>"
          "failing_storage (Exn ''SequelizeDatabaseError'' ''down'' [])" "()" None]
  by simp

text \<open>
  C10, as amended. \<open>find\<close> called without a \<open>sort\<close> (so that \<open>sortBy\<close> is \<open>undefined\<close>), or
  with a \<open>sortBy\<close> that names neither an entry of \<open>fieldRawAttributesMap\<close> nor a property
  every object inherits from \<open>Object.prototype\<close>, throws a TypeError on reading \<open>.type\<close> of
  the missing entry, and sends no query to the database.
\<close>

theorem find_unknown_sort_field_type_error:
  assumes "(opt_sort opts = None \<and> fieldRawAttributesMap model ''undefined'' = None)
         \<or> (\<exists>srt. opt_sort opts = Some srt
                  \<and> fieldRawAttributesMap model (property_key (sortBy srt)) = None
                  \<and> property_key (sortBy srt) \<notin> set object_prototype_keys)"
  shows "\<exists>msg. find model st db fltr (Some opts) = (Inl (Exn ''TypeError'' msg []), [])"
  using assms
  by (auto simp: find_def sort_of_def property_key_def TypeError_def js_lookup_def
        object_prototype_keys_def)

theorem find_unknown_sort_field_type_error_witness:
  "(\<exists>msg. find \<lparr>tableName = ''Users'', model_name = ''User'', primaryKeyField = ''id'',
              fieldRawAttributesMap = [''email'' \<mapsto> \<lparr>attr_type = OtherType ''STRING''\<rparr>]\<rparr>
          empty_storage () None
          (Some \<lparr>opt_limit = None, opt_offset = None, opt_sort = None\<rparr>)
       = (Inl (Exn ''TypeError'' msg []), []))
   \<and> (\<exists>msg. find \<lparr>tableName = ''Users'', model_name = ''User'', primaryKeyField = ''id'',
              fieldRawAttributesMap = [''email'' \<mapsto> \<lparr>attr_type = OtherType ''STRING''\<rparr>]\<rparr>
          empty_storage () None
          (Some \<lparr>opt_limit = None, opt_offset = None,
                  opt_sort = Some \<lparr>direction = Some ''desc'', sortBy = Some ''age''\<rparr>\<rparr>)
       = (Inl (Exn ''TypeError'' msg []), []))"
  using find_unknown_sort_field_type_error
      [of "\<lparr>opt_limit = None, opt_offset = None, opt_sort = None\<rparr>"
          "\<lparr>tableName = ''Users'', model_name = ''User'', primaryKeyField = ''id'',
              fieldRawAttributesMap = [''email'' \<mapsto> \<lparr>attr_type = OtherType ''STRING''\<rparr>]\<rparr>"
          empty_storage "()" None]
    find_unknown_sort_field_type_error
      [of "\<lparr>opt_limit = None, opt_offset = None,
                  opt_sort = Some \<lparr>direction = Some ''desc'', sortBy = Some ''age''\<rparr>\<rparr>"
          "\<lparr>tableName = ''Users'', model_name = ''User'', primaryKeyField = ''id'',
              fieldRawAttributesMap = [''email'' \<mapsto> \<lparr>attr_type = OtherType ''STRING''\<rparr>]\<rparr>"
          empty_storage "()" None]
  by (simp add: property_key_def object_prototype_keys_def)

text \<open>
  The claim C10 as stated fails: \<open>toString\<close> names no attribute of the model, the lookup
  finds the function every object inherits, no error is thrown and the query is sent.
\<close>

theorem find_inherited_sort_field_counterexample:
  "find \<lparr>tableName = ''Users'', model_name = ''User'', primaryKeyField = ''id'',
          fieldRawAttributesMap = [''email'' \<mapsto> \<lparr>attr_type = OtherType ''STRING''\<rparr>]\<rparr>
     empty_storage () None
     (Some \<lparr>opt_limit = None, opt_offset = None,
             opt_sort = Some \<lparr>direction = None, sortBy = Some ''toString''\<rparr>\<rparr>)
   = (Inr [],
      [\<lparr>q_where = Map.empty, q_limit = 20, q_offset = 0,
        q_order = [(Some ''toString'', ''ASC'')]\<rparr>])"
proof -
  have up: "toUpperCase ''asc'' = ''ASC''" by code_simp
  show ?thesis
    by (simp add: find_def sort_of_def property_key_def js_lookup_def object_prototype_keys_def
          convertFilter_def empty_storage_def up)
qed

end
